theory Spec2Isabelle
  imports Main
begin

section \<open>The rectangle factory\<close>

text \<open>
  \<^verbatim>\<open>function Rectangle(width, height)\<close> builds a plain object with two data fields and
  a method that is a closure over the constructor's arguments (not over the fields).
  The object is a record whose \<open>getArea\<close> field holds that closure. Numbers are kept
  abstract: any type with a multiplication.
\<close>

record 'a rectangle =
  width :: 'a
  height :: 'a
  getArea :: "unit \<Rightarrow> 'a"

definition Rectangle :: "'a::times \<Rightarrow> 'a \<Rightarrow> 'a rectangle" where
  "Rectangle w h = \<lparr>width = w, height = h, getArea = (\<lambda>_. w * h)\<rparr>"

section \<open>The selector object\<close>

text \<open>
  Both errors of the source are plain \<^verbatim>\<open>Error\<close> objects told apart by their message:
  "Element, id and pseudo-element should not occur more then one time inside the selector"
  is \<open>DuplicateFragmentError\<close>, "Selector parts should be arranged in the following
  order: ..." is \<open>OutOfOrderError\<close>.
\<close>

datatype error = DuplicateFragmentError | OutOfOrderError

text \<open>
  The fields set by the constructor, and \<open>stringify_own\<close>: the instance's own
  \<^verbatim>\<open>stringify\<close> property, which \<^verbatim>\<open>combine\<close> assigns and which then shadows the method of
  the prototype.
\<close>

record CSSSelector =
  elementValue :: string
  idValue :: string
  classValues :: "string list"
  attrValues :: "string list"
  pseudoClassValues :: "string list"
  pseudoElementValue :: string
  priority :: nat
  stringify_own :: "(unit \<Rightarrow> string) option"

definition new_CSSSelector :: CSSSelector where
  "new_CSSSelector =
     \<lparr>elementValue = '''', idValue = '''', classValues = [], attrValues = [],
      pseudoClassValues = [], pseudoElementValue = '''', priority = 0,
      stringify_own = None\<rparr>"

text \<open>A string in a condition: the empty string is the only falsy one.\<close>

definition truthy :: "string \<Rightarrow> bool" where
  "truthy v = (v \<noteq> '''')"

text \<open>\<^verbatim>\<open>Array.prototype.join\<close> on an array of strings.\<close>

fun array_join :: "string \<Rightarrow> string list \<Rightarrow> string" where
  "array_join sep [] = ''''"
| "array_join sep [x] = x"
| "array_join sep (x # y # ys) = x @ sep @ array_join sep (y # ys)"

text \<open>
  A method takes the object and returns what it raised, if anything, together with
  the object as the call left it: a \<^verbatim>\<open>throw\<close> does not undo the assignments made
  before it. A normal return of a fragment method is \<^verbatim>\<open>return this\<close>.
\<close>

type_synonym outcome = "error option \<times> CSSSelector"

definition checkOrder :: "nat \<Rightarrow> CSSSelector \<Rightarrow> outcome" where
  "checkOrder p s =
     (if priority s \<le> p then (None, s\<lparr>priority := p\<rparr>)
      else (Some OutOfOrderError, s))"

definition CSSSelector_element :: "string \<Rightarrow> CSSSelector \<Rightarrow> outcome" where
  "CSSSelector_element v s =
     (if truthy (elementValue s) then (Some DuplicateFragmentError, s)
      else checkOrder 1 (s\<lparr>elementValue := v\<rparr>))"

definition CSSSelector_id :: "string \<Rightarrow> CSSSelector \<Rightarrow> outcome" where
  "CSSSelector_id v s =
     (if truthy (idValue s) then (Some DuplicateFragmentError, s)
      else checkOrder 2 (s\<lparr>idValue := v\<rparr>))"

definition CSSSelector_class :: "string \<Rightarrow> CSSSelector \<Rightarrow> outcome" where
  "CSSSelector_class v s = checkOrder 3 (s\<lparr>classValues := classValues s @ [v]\<rparr>)"

definition CSSSelector_attr :: "string \<Rightarrow> CSSSelector \<Rightarrow> outcome" where
  "CSSSelector_attr v s = checkOrder 4 (s\<lparr>attrValues := attrValues s @ [v]\<rparr>)"

definition CSSSelector_pseudoClass :: "string \<Rightarrow> CSSSelector \<Rightarrow> outcome" where
  "CSSSelector_pseudoClass v s =
     checkOrder 5 (s\<lparr>pseudoClassValues := pseudoClassValues s @ [v]\<rparr>)"

definition CSSSelector_pseudoElement :: "string \<Rightarrow> CSSSelector \<Rightarrow> outcome" where
  "CSSSelector_pseudoElement v s =
     (if truthy (pseudoElementValue s) then (Some DuplicateFragmentError, s)
      else checkOrder 6 (s\<lparr>pseudoElementValue := v\<rparr>))"

text \<open>
  The prototype's \<^verbatim>\<open>stringify\<close>: the local \<^verbatim>\<open>result\<close> grows group by group. It is
  written in the same state-passing form as the other methods, returning the string
  and the object.
\<close>

definition CSSSelector_stringify :: "CSSSelector \<Rightarrow> string \<times> CSSSelector" where
  "CSSSelector_stringify s =
     (let result = '''';
          result = (if truthy (elementValue s) then result @ elementValue s else result);
          result = (if truthy (idValue s) then result @ ''#'' @ idValue s else result);
          result = (if length (classValues s) > 0
                    then result @ ''.'' @ array_join ''.'' (classValues s) else result);
          result = (if length (attrValues s) > 0
                    then result @ ''['' @ array_join '']['' (attrValues s) @ '']''
                    else result);
          result = (if length (pseudoClassValues s) > 0
                    then result @ '':'' @ array_join '':'' (pseudoClassValues s)
                    else result);
          result = (if truthy (pseudoElementValue s)
                    then result @ ''::'' @ pseudoElementValue s else result)
      in (result, s))"

text \<open>
  The call \<^verbatim>\<open>x.stringify()\<close>: property lookup finds the instance's own property
  first, the prototype's method otherwise.
\<close>

definition stringify :: "CSSSelector \<Rightarrow> string \<times> CSSSelector" where
  "stringify s =
     (case stringify_own s of
        Some f \<Rightarrow> (f (), s)
      | None \<Rightarrow> CSSSelector_stringify s)"

section \<open>The facade\<close>

text \<open>What the caller of a fragment method gets: the object, or the exception.\<close>

fun returned :: "outcome \<Rightarrow> error + CSSSelector" where
  "returned (None, s) = Inr s"
| "returned (Some e, s) = Inl e"

definition cssSelectorBuilder_element :: "string \<Rightarrow> error + CSSSelector" where
  "cssSelectorBuilder_element v = returned (CSSSelector_element v new_CSSSelector)"

definition cssSelectorBuilder_id :: "string \<Rightarrow> error + CSSSelector" where
  "cssSelectorBuilder_id v = returned (CSSSelector_id v new_CSSSelector)"

definition cssSelectorBuilder_class :: "string \<Rightarrow> error + CSSSelector" where
  "cssSelectorBuilder_class v = returned (CSSSelector_class v new_CSSSelector)"

definition cssSelectorBuilder_attr :: "string \<Rightarrow> error + CSSSelector" where
  "cssSelectorBuilder_attr v = returned (CSSSelector_attr v new_CSSSelector)"

definition cssSelectorBuilder_pseudoClass :: "string \<Rightarrow> error + CSSSelector" where
  "cssSelectorBuilder_pseudoClass v = returned (CSSSelector_pseudoClass v new_CSSSelector)"

definition cssSelectorBuilder_pseudoElement :: "string \<Rightarrow> error + CSSSelector" where
  "cssSelectorBuilder_pseudoElement v =
     returned (CSSSelector_pseudoElement v new_CSSSelector)"

definition cssSelectorBuilder_combine ::
  "CSSSelector \<Rightarrow> string \<Rightarrow> CSSSelector \<Rightarrow> CSSSelector" where
  "cssSelectorBuilder_combine selector1 combinator selector2 =
     (let result = fst (stringify selector1) @ '' '' @ combinator @ '' '' @
                   fst (stringify selector2)
      in new_CSSSelector\<lparr>stringify_own := Some (\<lambda>_. result)\<rparr>)"

subsection \<open>Method chains\<close>

text \<open>
  \<^verbatim>\<open>x.m(v)\<close> in a chain: an exception raised earlier in the chain propagates, and so
  does one raised by \<open>m\<close>.
\<close>

fun dot :: "error + CSSSelector \<Rightarrow> (CSSSelector \<Rightarrow> outcome) \<Rightarrow> error + CSSSelector" where
  "dot (Inl e) m = Inl e"
| "dot (Inr s) m = returned (m s)"

fun dot_stringify :: "error + CSSSelector \<Rightarrow> error + string" where
  "dot_stringify (Inl e) = Inl e"
| "dot_stringify (Inr s) = Inr (fst (stringify s))"

text \<open>A call of \<^verbatim>\<open>combine\<close> whose operands are expressions, evaluated left to right.\<close>

fun call_combine ::
  "error + CSSSelector \<Rightarrow> string \<Rightarrow> error + CSSSelector \<Rightarrow> error + CSSSelector" where
  "call_combine (Inl e) t y = Inl e"
| "call_combine (Inr a) t (Inl e) = Inl e"
| "call_combine (Inr a) t (Inr b) = Inr (cssSelectorBuilder_combine a t b)"

subsection \<open>Fragment calls as data\<close>

datatype kind = KElement | KId | KClass | KAttr | KPseudoClass | KPseudoElement

type_synonym call = "kind \<times> string"

text \<open>The constant each method passes to \<open>checkOrder\<close>.\<close>

fun rank :: "kind \<Rightarrow> nat" where
  "rank KElement = 1"
| "rank KId = 2"
| "rank KClass = 3"
| "rank KAttr = 4"
| "rank KPseudoClass = 5"
| "rank KPseudoElement = 6"

fun invoke :: "call \<Rightarrow> CSSSelector \<Rightarrow> outcome" where
  "invoke (KElement, v) s = CSSSelector_element v s"
| "invoke (KId, v) s = CSSSelector_id v s"
| "invoke (KClass, v) s = CSSSelector_class v s"
| "invoke (KAttr, v) s = CSSSelector_attr v s"
| "invoke (KPseudoClass, v) s = CSSSelector_pseudoClass v s"
| "invoke (KPseudoElement, v) s = CSSSelector_pseudoElement v s"

text \<open>A chain of calls on one object: it stops at the first exception.\<close>

fun chain :: "call list \<Rightarrow> CSSSelector \<Rightarrow> error + CSSSelector" where
  "chain [] s = Inr s"
| "chain (c # cs) s =
     (case invoke c s of
        (Some e, s') \<Rightarrow> Inl e
      | (None, s') \<Rightarrow> chain cs s')"

text \<open>
  Calls made one after the other by a caller that keeps the object and catches each
  exception: the object after all of them.
\<close>

fun attempt_all :: "call list \<Rightarrow> CSSSelector \<Rightarrow> CSSSelector" where
  "attempt_all [] s = s"
| "attempt_all (c # cs) s = attempt_all cs (snd (invoke c s))"

text \<open>The chain on a fresh object, followed by \<^verbatim>\<open>.stringify()\<close>.\<close>

definition render_chain :: "call list \<Rightarrow> error + string" where
  "render_chain cs =
     (case chain cs new_CSSSelector of
        Inl e \<Rightarrow> Inl e
      | Inr s \<Rightarrow> Inr (fst (stringify s)))"

text \<open>\<^verbatim>\<open>x.stringify()\<close> called \<open>n\<close> times in a row: the strings returned, and the object.\<close>

fun stringify_times :: "nat \<Rightarrow> CSSSelector \<Rightarrow> string list \<times> CSSSelector" where
  "stringify_times 0 s = ([], s)"
| "stringify_times (Suc n) s =
     (case stringify s of (r, s') \<Rightarrow>
        (case stringify_times n s' of (rs, s'') \<Rightarrow> (r # rs, s'')))"

subsection \<open>The guards of the methods\<close>

text \<open>The kinds whose method starts with the duplicate check.\<close>

fun singular :: "kind \<Rightarrow> bool" where
  "singular KElement = True"
| "singular KId = True"
| "singular KPseudoElement = True"
| "singular k = False"

text \<open>The condition of that check: the stored string is truthy.\<close>

fun is_duplicate :: "kind \<Rightarrow> CSSSelector \<Rightarrow> bool" where
  "is_duplicate KElement s = truthy (elementValue s)"
| "is_duplicate KId s = truthy (idValue s)"
| "is_duplicate KPseudoElement s = truthy (pseudoElementValue s)"
| "is_duplicate k s = False"

text \<open>The highest rank among the calls made so far (0 when there is none).\<close>

fun highest_rank :: "call list \<Rightarrow> nat" where
  "highest_rank [] = 0"
| "highest_rank (c # cs) = max (rank (fst c)) (highest_rank cs)"

subsection \<open>The rendering the specification describes\<close>

text \<open>The values passed to the calls of one kind, in call order.\<close>

definition vals :: "kind \<Rightarrow> call list \<Rightarrow> string list" where
  "vals k cs = map snd (filter (\<lambda>c. fst c = k) cs)"

text \<open>
  The specification's words for \<open>render\<close>: the groups in fixed kind order, the element
  as it is, the id prefixed \<open>#\<close>, each class prefixed \<open>.\<close>, each attribute wrapped in
  brackets, each pseudo-class prefixed \<open>:\<close>, the pseudo-element prefixed \<open>::\<close>, nothing
  between the groups. A group without entries contributes the empty string.
\<close>

definition spec_render :: "call list \<Rightarrow> string" where
  "spec_render cs =
     concat (vals KElement cs) @
     concat (map (\<lambda>v. ''#'' @ v) (vals KId cs)) @
     concat (map (\<lambda>v. ''.'' @ v) (vals KClass cs)) @
     concat (map (\<lambda>v. ''['' @ v @ '']'') (vals KAttr cs)) @
     concat (map (\<lambda>v. '':'' @ v) (vals KPseudoClass cs)) @
     concat (map (\<lambda>v. ''::'' @ v) (vals KPseudoElement cs))"

text \<open>
  The call sequences the specification calls valid: ranks never decrease, and element,
  id and pseudo-element are each called at most once.
\<close>

definition valid_calls :: "call list \<Rightarrow> bool" where
  "valid_calls cs =
     (sorted (map (\<lambda>c. rank (fst c)) cs) \<and>
      length (vals KElement cs) \<le> 1 \<and>
      length (vals KId cs) \<le> 1 \<and>
      length (vals KPseudoElement cs) \<le> 1)"

text \<open>
  A call that leaves something to render: every class, attribute and pseudo-class, and
  an element, id or pseudo-element whose value is not the empty string.
\<close>

fun present :: "call \<Rightarrow> bool" where
  "present (k, v) = (if singular k then v \<noteq> '''' else True)"

subsection \<open>Auxiliary notions of the proofs\<close>

text \<open>The object a valid call sequence builds from a fresh one.\<close>

definition built :: "call list \<Rightarrow> CSSSelector" where
  "built cs =
     \<lparr>elementValue = concat (vals KElement cs), idValue = concat (vals KId cs),
      classValues = vals KClass cs, attrValues = vals KAttr cs,
      pseudoClassValues = vals KPseudoClass cs,
      pseudoElementValue = concat (vals KPseudoElement cs),
      priority = highest_rank cs, stringify_own = None\<rparr>"

text \<open>
  What holds of an object after the calls \<open>cs\<close>, failed ones included: \<open>priority\<close> is
  their highest rank, and a stored singular value has its rank accounted for.
\<close>

definition tracked :: "call list \<Rightarrow> CSSSelector \<Rightarrow> bool" where
  "tracked cs s =
     (priority s = highest_rank cs \<and>
      (if truthy (elementValue s) then 1 \<le> priority s else True) \<and>
      (if truthy (idValue s) then 2 \<le> priority s else True) \<and>
      (if truthy (pseudoElementValue s) then 6 \<le> priority s else True))"

section \<open>Basic facts\<close>

lemmas method_defs =
  CSSSelector_element_def CSSSelector_id_def CSSSelector_class_def CSSSelector_attr_def
  CSSSelector_pseudoClass_def CSSSelector_pseudoElement_def checkOrder_def

lemma stringify_keeps_object: "snd (stringify s) = s"
  by (simp add: stringify_def CSSSelector_stringify_def Let_def split: option.splits)

lemma invoke_out_of_order:
  "(fst (invoke (k, v) s) = Some OutOfOrderError) =
     (rank k < priority s \<and> \<not> is_duplicate k s)"
  by (cases k) (auto simp: method_defs)

lemma invoke_duplicate:
  "(fst (invoke (k, v) s) = Some DuplicateFragmentError) = is_duplicate k s"
  by (cases k) (auto simp: method_defs)

lemma duplicate_error_leaves_object:
  "fst (invoke c s) = Some DuplicateFragmentError \<Longrightarrow> snd (invoke c s) = s"
  by (cases c; cases "fst c") (auto simp: method_defs split: if_splits)

lemma invoke_keeps_own_stringify: "stringify_own (snd (invoke c s)) = stringify_own s"
  by (cases c; cases "fst c") (auto simp: method_defs)

lemma attempt_all_keeps_own_stringify: "stringify_own (attempt_all cs s) = stringify_own s"
  by (induction cs arbitrary: s) (simp_all add: invoke_keeps_own_stringify)

lemma highest_rank_snoc: "highest_rank (cs @ [c]) = max (highest_rank cs) (rank (fst c))"
  by (induction cs) auto

lemma highest_rank_le: "(highest_rank cs \<le> n) = (\<forall>c\<in>set cs. rank (fst c) \<le> n)"
  by (induction cs) auto

lemma attempt_all_snoc: "attempt_all (cs @ [c]) s = snd (invoke c (attempt_all cs s))"
  by (induction cs arbitrary: s) auto

lemma chain_snoc:
  "chain (cs @ [c]) s =
     (case chain cs s of Inl e \<Rightarrow> Inl e | Inr s' \<Rightarrow> returned (invoke c s'))"
  by (induction cs arbitrary: s) (auto split: prod.splits option.splits sum.splits)

section \<open>Rectangle\<close>

text \<open>
  C10. For all numbers \<open>w\<close> and \<open>h\<close>, \<open>Rectangle w h\<close> has width \<open>w\<close>, height \<open>h\<close>, and
  \<open>getArea()\<close> returns \<open>w * h\<close>; the method is bound to the constructor's arguments,
  so it returns the same product after the fields \<open>width\<close> and \<open>height\<close> of the
  returned object have been reassigned.
\<close>

theorem Rectangle_getArea_closure:
  "width (Rectangle w h) = w \<and>
   height (Rectangle w h) = h \<and>
   getArea (Rectangle w h) () = w * h \<and>
   getArea ((Rectangle w h)\<lparr>width := w'\<rparr>) () = w * h \<and>
   getArea ((Rectangle w h)\<lparr>height := h'\<rparr>) () = w * h \<and>
   getArea ((Rectangle w h)\<lparr>width := w', height := h'\<rparr>) () = w * h"
  by (simp add: Rectangle_def)

section \<open>The order check\<close>

lemma tracked_step: "tracked cs s \<Longrightarrow> tracked (cs @ [c]) (snd (invoke c s))"
  by (cases c; cases "fst c")
     (auto simp: tracked_def highest_rank_snoc method_defs max_def split: if_splits)

lemma tracked_attempt_all: "tracked cs (attempt_all cs new_CSSSelector)"
proof (induction cs rule: rev_induct)
  case Nil
  show ?case by (simp add: tracked_def new_CSSSelector_def truthy_def)
next
  case (snoc c cs)
  then show ?case by (simp add: attempt_all_snoc tracked_step)
qed

lemma priority_is_highest_rank:
  "priority (attempt_all cs new_CSSSelector) = highest_rank cs"
  using tracked_attempt_all [of cs] by (simp add: tracked_def)

text \<open>
  C2, as stated, fails: after \<^verbatim>\<open>element('a').id('b')\<close> the highest rank added is 2, and
  \<^verbatim>\<open>element('c')\<close>, of rank 1, raises the duplicate error, not the order error: the
  duplicate check comes first in the method.
\<close>

theorem out_of_order_after_duplicate_check_counterexample:
  "highest_rank [(KElement, ''a''), (KId, ''b'')] = 2 \<and>
   priority (attempt_all [(KElement, ''a''), (KId, ''b'')] new_CSSSelector) = 2 \<and>
   rank KElement < priority (attempt_all [(KElement, ''a''), (KId, ''b'')] new_CSSSelector) \<and>
   fst (invoke (KElement, ''c'') (attempt_all [(KElement, ''a''), (KId, ''b'')] new_CSSSelector))
     = Some DuplicateFragmentError \<and>
   chain [(KElement, ''a''), (KId, ''b''), (KElement, ''c'')] new_CSSSelector
     = Inl DuplicateFragmentError"
  by (simp add: method_defs new_CSSSelector_def truthy_def)

text \<open>
  C2, amended. A fragment call that passes the duplicate check raises
  \<open>OutOfOrderError\<close> exactly when its rank is strictly less than \<open>priority\<close>, and
  \<open>priority\<close> is the highest rank of the calls made on the object so far. A call of
  equal rank that passes the duplicate check succeeds; a class call after a
  successful class call succeeds; a class call after an attribute call raises
  \<open>OutOfOrderError\<close>.
\<close>

theorem out_of_order_iff:
  "((fst (invoke (k, v) s) = Some OutOfOrderError) =
      (rank k < priority s \<and> \<not> is_duplicate k s)) \<and>
   priority (attempt_all cs new_CSSSelector) = highest_rank cs \<and>
   (rank k = priority s \<and> \<not> is_duplicate k s \<longrightarrow> fst (invoke (k, v) s) = None) \<and>
   (fst (invoke (KClass, v) s) = None \<longrightarrow>
      fst (invoke (KClass, w) (snd (invoke (KClass, v) s))) = None) \<and>
   fst (invoke (KClass, w) (snd (invoke (KAttr, v) s))) = Some OutOfOrderError"
proof -
  have equal_rank:
    "rank k = priority s \<and> \<not> is_duplicate k s \<longrightarrow> fst (invoke (k, v) s) = None"
    by (cases k) (auto simp: method_defs)
  have class_twice:
    "fst (invoke (KClass, v) s) = None \<longrightarrow>
       fst (invoke (KClass, w) (snd (invoke (KClass, v) s))) = None"
    by (auto simp: method_defs)
  have class_after_attr:
    "fst (invoke (KClass, w) (snd (invoke (KAttr, v) s))) = Some OutOfOrderError"
    by (auto simp: method_defs)
  show ?thesis
    using equal_rank class_twice class_after_attr invoke_out_of_order
      priority_is_highest_rank
    by blast
qed

theorem out_of_order_iff_witness:
  "rank KClass = priority (attempt_all [(KElement, ''a''), (KClass, ''c'')] new_CSSSelector) \<and>
   \<not> is_duplicate KClass (attempt_all [(KElement, ''a''), (KClass, ''c'')] new_CSSSelector) \<and>
   fst (invoke (KClass, ''d'')
          (attempt_all [(KElement, ''a''), (KClass, ''c'')] new_CSSSelector)) = None \<and>
   fst (invoke (KClass, ''e'')
          (snd (invoke (KClass, ''d'')
             (attempt_all [(KElement, ''a''), (KClass, ''c'')] new_CSSSelector)))) = None \<and>
   fst (invoke (KClass, ''e'')
          (snd (invoke (KAttr, ''d'')
             (attempt_all [(KElement, ''a''), (KClass, ''c'')] new_CSSSelector))))
     = Some OutOfOrderError"
  using out_of_order_iff
    [where k = KClass and v = "''d''" and w = "''e''" and cs = "[]"
       and s = "attempt_all [(KElement, ''a''), (KClass, ''c'')] new_CSSSelector"]
  by (simp add: method_defs new_CSSSelector_def)

section \<open>The duplicate check\<close>

text \<open>
  C3, as stated, fails: after \<^verbatim>\<open>element('')\<close> a second \<^verbatim>\<open>element('a')\<close> on the same
  object raises nothing, since the check reads the stored string, which is falsy.
\<close>

theorem second_call_after_empty_value_counterexample:
  "fst (invoke (KElement, '''') new_CSSSelector) = None \<and>
   fst (invoke (KElement, ''a'') (snd (invoke (KElement, '''') new_CSSSelector))) = None \<and>
   chain [(KElement, ''''), (KElement, ''a'')] new_CSSSelector \<noteq> Inl DuplicateFragmentError"
  by (simp add: method_defs new_CSSSelector_def truthy_def)

text \<open>
  A non-empty value is stored by the call, whether \<open>checkOrder\<close> then raises or not,
  and no later call, failed or not, takes it away: the method of its kind is stopped
  by the guard, the other methods do not assign the field.
\<close>

lemma nonempty_value_stored:
  "singular k \<Longrightarrow> v \<noteq> '''' \<Longrightarrow> is_duplicate k (snd (invoke (k, v) s))"
  by (cases k) (auto simp: method_defs truthy_def)

lemma stored_value_survives_call:
  "is_duplicate k s \<Longrightarrow> is_duplicate k (snd (invoke c s))"
  by (cases c; cases "fst c"; cases k) (auto simp: method_defs)

lemma stored_value_survives:
  "is_duplicate k s \<Longrightarrow> is_duplicate k (attempt_all cs s)"
  by (induction cs arbitrary: s) (simp_all add: stored_value_survives_call)

text \<open>
  C3, amended. For every object, every non-empty value \<open>v\<close> and every value \<open>w\<close>: once
  element (likewise id, likewise pseudo-element) has been called with \<open>v\<close> on the
  object, every later call of the same method with \<open>w\<close> on it raises
  \<open>DuplicateFragmentError\<close>, whatever calls \<open>cs\<close>, failed or not, were made in
  between. Class, attribute and pseudo-class calls never raise it, and one that
  follows a successful call of the same kind succeeds.
\<close>

theorem second_singular_call_duplicate:
  "(singular k \<and> v \<noteq> '''' \<longrightarrow>
      fst (invoke (k, w) (attempt_all cs (snd (invoke (k, v) s))))
        = Some DuplicateFragmentError) \<and>
   (\<not> singular k \<longrightarrow>
      fst (invoke (k, w) s) \<noteq> Some DuplicateFragmentError \<and>
      (fst (invoke (k, v) s) = None \<longrightarrow>
         fst (invoke (k, w) (snd (invoke (k, v) s))) = None))"
proof -
  have singular_kinds:
    "singular k \<and> v \<noteq> '''' \<longrightarrow>
       fst (invoke (k, w) (attempt_all cs (snd (invoke (k, v) s))))
         = Some DuplicateFragmentError"
    by (simp add: invoke_duplicate stored_value_survives nonempty_value_stored)
  have other_kinds:
    "\<not> singular k \<longrightarrow>
       fst (invoke (k, w) s) \<noteq> Some DuplicateFragmentError \<and>
       (fst (invoke (k, v) s) = None \<longrightarrow>
          fst (invoke (k, w) (snd (invoke (k, v) s))) = None)"
    by (cases k) (auto simp: method_defs)
  from singular_kinds other_kinds show ?thesis by blast
qed

theorem second_singular_call_duplicate_witness:
  "singular KId \<and> ''main'' \<noteq> '''' \<and>
   fst (invoke (KId, ''other'') (snd (invoke (KId, ''main'') new_CSSSelector)))
     = Some DuplicateFragmentError \<and>
   fst (invoke (KElement, ''div'')
          (attempt_all [(KClass, ''a'')] (snd (invoke (KId, ''main'') new_CSSSelector))))
     = Some OutOfOrderError \<and>
   fst (invoke (KId, ''other'')
          (attempt_all [(KClass, ''a''), (KElement, ''div''), (KAttr, ''b'')]
             (snd (invoke (KId, ''main'') new_CSSSelector))))
     = Some DuplicateFragmentError \<and>
   \<not> singular KClass \<and>
   fst (invoke (KClass, ''a'') new_CSSSelector) = None \<and>
   fst (invoke (KClass, ''b'') (snd (invoke (KClass, ''a'') new_CSSSelector))) = None"
  using second_singular_call_duplicate
    [where k = KId and v = "''main''" and w = "''other''" and s = new_CSSSelector
       and cs = "[]"]
    second_singular_call_duplicate
    [where k = KId and v = "''main''" and w = "''other''" and s = new_CSSSelector
       and cs = "[(KClass, ''a''), (KElement, ''div''), (KAttr, ''b'')]"]
    second_singular_call_duplicate
    [where k = KClass and v = "''a''" and w = "''b''" and s = new_CSSSelector
       and cs = "[]"]
  by (simp add: method_defs new_CSSSelector_def truthy_def)

section \<open>What a failed call leaves behind\<close>

text \<open>
  C5. The claim: a call that raises leaves the object, and so its rendering, as it was.
  The code at \<^verbatim>\<open>b = cssSelectorBuilder.class('a'); b.element('div')\<close>: the call raises
  the order error after it has stored the value, and \<open>b\<close> renders \<^verbatim>\<open>div.a\<close> where it
  rendered \<^verbatim>\<open>.a\<close> before.
\<close>

theorem out_of_order_call_leaves_fragment:
  "chain [(KClass, ''a'')] new_CSSSelector
     = Inr (attempt_all [(KClass, ''a'')] new_CSSSelector) \<and>
   fst (invoke (KElement, ''div'') (attempt_all [(KClass, ''a'')] new_CSSSelector))
     = Some OutOfOrderError \<and>
   fst (stringify (attempt_all [(KClass, ''a'')] new_CSSSelector)) = ''.a'' \<and>
   fst (stringify (snd (invoke (KElement, ''div'')
          (attempt_all [(KClass, ''a'')] new_CSSSelector)))) = ''div.a''"
  by (simp add: method_defs new_CSSSelector_def truthy_def stringify_def
      CSSSelector_stringify_def)

section \<open>Combine\<close>

text \<open>
  C4. For all operands \<open>a\<close>, \<open>b\<close> (built or combined) and every token \<open>t\<close>, the result of
  \<open>combine a t b\<close> renders as the rendering of \<open>a\<close>, one space, the token as given,
  one space, the rendering of \<open>b\<close>; and a combined result is an operand like any
  other, on the left or on the right.
\<close>

theorem combine_stringify:
  "fst (stringify (cssSelectorBuilder_combine a t b)) =
     fst (stringify a) @ '' '' @ t @ '' '' @ fst (stringify b) \<and>
   fst (stringify (cssSelectorBuilder_combine (cssSelectorBuilder_combine a t b) u c)) =
     (fst (stringify a) @ '' '' @ t @ '' '' @ fst (stringify b)) @ '' '' @ u @ '' '' @
     fst (stringify c) \<and>
   fst (stringify (cssSelectorBuilder_combine a t (cssSelectorBuilder_combine b u c))) =
     fst (stringify a) @ '' '' @ t @ '' '' @
     (fst (stringify b) @ '' '' @ u @ '' '' @ fst (stringify c)) \<and>
   fst (stringify (cssSelectorBuilder_combine a '' '' b)) =
     fst (stringify a) @ ''   '' @ fst (stringify b)"
  by (simp add: cssSelectorBuilder_combine_def stringify_def Let_def)

text \<open>
  C7. The rendering of a combined result is fixed when it is made: whatever fragment
  calls are made on it afterwards, failed or not, it renders as it did right after
  \<open>combine\<close>.
\<close>

theorem combined_stringify_frozen:
  "fst (stringify (attempt_all cs (cssSelectorBuilder_combine l t r))) =
   fst (stringify (cssSelectorBuilder_combine l t r))"
  by (simp add: stringify_def attempt_all_keeps_own_stringify)
     (simp add: cssSelectorBuilder_combine_def Let_def)

section \<open>The worked examples\<close>

text \<open>
  C6. The three examples of the specification render the strings it gives:
  \<^verbatim>\<open>id('main').class('container').class('editable')\<close>,
  \<^verbatim>\<open>element('a').attr('href$=".png"').pseudoClass('focus')\<close>, and the nested combine
  with \<^verbatim>\<open>+\<close>, \<^verbatim>\<open>~\<close> and the single-space token, which leaves three spaces between
  \<^verbatim>\<open>tr:nth-of-type(even)\<close> and \<^verbatim>\<open>td:nth-of-type(even)\<close>.
\<close>

theorem worked_examples:
  "dot_stringify
     (dot (dot (cssSelectorBuilder_id ''main'') (CSSSelector_class ''container''))
        (CSSSelector_class ''editable''))
     = Inr ''#main.container.editable'' \<and>
   dot_stringify
     (dot (dot (cssSelectorBuilder_element ''a'') (CSSSelector_attr ''href$=\".png\"''))
        (CSSSelector_pseudoClass ''focus''))
     = Inr ''a[href$=\".png\"]:focus'' \<and>
   dot_stringify
     (call_combine
        (dot (dot (dot (cssSelectorBuilder_element ''div'') (CSSSelector_id ''main''))
           (CSSSelector_class ''container'')) (CSSSelector_class ''draggable''))
        ''+''
        (call_combine
           (dot (cssSelectorBuilder_element ''table'') (CSSSelector_id ''data''))
           ''~''
           (call_combine
              (dot (cssSelectorBuilder_element ''tr'')
                 (CSSSelector_pseudoClass ''nth-of-type(even)''))
              '' ''
              (dot (cssSelectorBuilder_element ''td'')
                 (CSSSelector_pseudoClass ''nth-of-type(even)'')))))
     = Inr ''div#main.container.draggable + table#data ~ tr:nth-of-type(even)   td:nth-of-type(even)''"
  by (simp add: cssSelectorBuilder_element_def cssSelectorBuilder_id_def
      cssSelectorBuilder_combine_def method_defs new_CSSSelector_def truthy_def
      stringify_def CSSSelector_stringify_def)

section \<open>Rendering changes nothing\<close>

text \<open>
  C8. A call of \<open>stringify\<close> returns the object as it was, field for field, for the
  prototype's method and for the own property of a combined result alike; so \<open>n\<close>
  calls in a row return \<open>n\<close> times the same string and leave the object unchanged.
\<close>

theorem stringify_idempotent:
  "snd (stringify s) = s \<and> snd (CSSSelector_stringify s) = s \<and>
   stringify_times n s = (replicate n (fst (stringify s)), s) \<and>
   fst (stringify (snd (stringify s))) = fst (stringify s)"
proof -
  have keep: "snd (stringify s) = s"
    by (rule stringify_keeps_object)
  have "stringify_times n s = (replicate n (fst (stringify s)), s)"
  proof (induction n)
    case 0
    show ?case by simp
  next
    case (Suc n)
    obtain r s' where rs: "stringify s = (r, s')"
      by (cases "stringify s")
    with keep have "s' = s" by simp
    with rs Suc show ?case by simp
  qed
  then show ?thesis
    using keep by (simp add: CSSSelector_stringify_def Let_def)
qed

section \<open>The empty string as a value\<close>

lemma empty_call_state:
  assumes "singular k" and "\<not> is_duplicate k s"
  shows "snd (invoke (k, '''') s) = s \<or>
         snd (invoke (k, '''') s) = s\<lparr>priority := rank k\<rparr>"
  using assms by (cases k) (auto simp: method_defs truthy_def)

lemma stringify_priority: "fst (stringify (s\<lparr>priority := p\<rparr>)) = fst (stringify s)"
  by (simp add: stringify_def CSSSelector_stringify_def split: option.splits)

lemma is_duplicate_priority: "is_duplicate k (s\<lparr>priority := p\<rparr>) = is_duplicate k s"
  by (cases k) simp_all

lemma fresh_empty_call:
  assumes "singular k"
  shows "render_chain [(k, '''')] = Inr '''' \<and>
         chain [(k, ''''), (k, w)] new_CSSSelector = chain [(k, w)] new_CSSSelector \<and>
         chain [(k, w)] new_CSSSelector \<noteq> Inl DuplicateFragmentError"
  using assms
  by (cases k)
     (simp_all add: method_defs truthy_def stringify_def CSSSelector_stringify_def
        render_chain_def new_CSSSelector_def)

text \<open>
  The rank a call records has no part in what later calls store or in what the
  duplicate guards see: two objects that differ in \<open>priority\<close> alone still differ in
  \<open>priority\<close> alone after any calls.
\<close>

lemma invoke_priority_aside:
  "(snd (invoke c (s\<lparr>priority := p\<rparr>)))\<lparr>priority := r\<rparr> =
   (snd (invoke c s))\<lparr>priority := r\<rparr>"
  by (cases c; cases "fst c") (auto simp: method_defs)

lemma priority_aside:
  assumes "x\<lparr>priority := r\<rparr> = (t::CSSSelector)\<lparr>priority := r\<rparr>"
  shows "x = t\<lparr>priority := priority x\<rparr>"
proof -
  have "x = (x\<lparr>priority := r\<rparr>)\<lparr>priority := priority x\<rparr>"
    by simp
  also have "\<dots> = (t\<lparr>priority := r\<rparr>)\<lparr>priority := priority x\<rparr>"
    by (simp only: assms)
  finally show ?thesis by simp
qed

lemma attempt_all_priority_aside:
  "(attempt_all cs (s\<lparr>priority := p\<rparr>))\<lparr>priority := r\<rparr> =
   (attempt_all cs s)\<lparr>priority := r\<rparr>"
proof (induction cs arbitrary: s p)
  case Nil
  show ?case by simp
next
  case (Cons c cs)
  have "snd (invoke c (s\<lparr>priority := p\<rparr>)) =
      (snd (invoke c s))\<lparr>priority := priority (snd (invoke c (s\<lparr>priority := p\<rparr>)))\<rparr>"
    by (rule priority_aside [OF invoke_priority_aside])
  then have "attempt_all (c # cs) (s\<lparr>priority := p\<rparr>) =
      attempt_all cs
        ((snd (invoke c s))\<lparr>priority := priority (snd (invoke c (s\<lparr>priority := p\<rparr>)))\<rparr>)"
    by simp
  then show ?case by (simp add: Cons.IH)
qed

lemma empty_call_later:
  assumes "singular k" and "\<not> is_duplicate k s"
  shows "fst (stringify (attempt_all cs (snd (invoke (k, '''') s)))) =
         fst (stringify (attempt_all cs s))"
    and "is_duplicate k' (attempt_all cs (snd (invoke (k, '''') s))) =
         is_duplicate k' (attempt_all cs s)"
proof -
  have "snd (invoke (k, '''') s) = s\<lparr>priority := priority (snd (invoke (k, '''') s))\<rparr>"
    using empty_call_state [OF assms] by auto
  then have "(attempt_all cs (snd (invoke (k, '''') s)))\<lparr>priority := 0\<rparr> =
      (attempt_all cs s)\<lparr>priority := 0\<rparr>"
    using attempt_all_priority_aside by metis
  then have eq: "attempt_all cs (snd (invoke (k, '''') s)) =
      (attempt_all cs s)\<lparr>priority := priority (attempt_all cs (snd (invoke (k, '''') s)))\<rparr>"
    by (rule priority_aside)
  show "fst (stringify (attempt_all cs (snd (invoke (k, '''') s)))) =
        fst (stringify (attempt_all cs s))"
    by (subst eq) (rule stringify_priority)
  show "is_duplicate k' (attempt_all cs (snd (invoke (k, '''') s))) =
        is_duplicate k' (attempt_all cs s)"
    by (subst eq) (rule is_duplicate_priority)
qed

text \<open>
  C9, as stated, fails: on an object whose id is already \<^verbatim>\<open>main\<close>, the call \<^verbatim>\<open>id('')\<close>
  is itself rejected by the guard, and the call \<^verbatim>\<open>id('x')\<close> after it raises the
  duplicate error too.
\<close>

theorem empty_value_on_set_kind_counterexample:
  "singular KId \<and>
   fst (invoke (KId, '''') (attempt_all [(KId, ''main'')] new_CSSSelector))
     = Some DuplicateFragmentError \<and>
   fst (invoke (KId, ''x'')
          (snd (invoke (KId, '''') (attempt_all [(KId, ''main'')] new_CSSSelector))))
     = Some DuplicateFragmentError \<and>
   chain [(KId, ''main''), (KId, '''')] new_CSSSelector = Inl DuplicateFragmentError"
  by (simp add: method_defs new_CSSSelector_def truthy_def)

text \<open>
  C9, amended. When element, id or pseudo-element is called with the empty string on
  an object that holds no non-empty value of that kind (so that the call is not
  itself rejected as a duplicate), the fragment is absent: the object renders as
  before the call, and the next call of the same method on it does not raise
  \<open>DuplicateFragmentError\<close>, whatever its value. Whatever calls \<open>cs\<close> follow, the
  object renders, and its guards reject, as if the call with the empty string had not
  been made. Through the facade: the fresh object renders the empty string, and a
  second call of the method goes through as if the first had never been made.
\<close>

theorem empty_singular_value_absent:
  assumes "singular k" and "fst (invoke (k, '''') s) \<noteq> Some DuplicateFragmentError"
  shows "fst (stringify (snd (invoke (k, '''') s))) = fst (stringify s) \<and>
         fst (invoke (k, w) (snd (invoke (k, '''') s))) \<noteq> Some DuplicateFragmentError \<and>
         render_chain [(k, '''')] = Inr '''' \<and>
         chain [(k, ''''), (k, w)] new_CSSSelector = chain [(k, w)] new_CSSSelector \<and>
         chain [(k, w)] new_CSSSelector \<noteq> Inl DuplicateFragmentError \<and>
         fst (stringify (attempt_all cs (snd (invoke (k, '''') s)))) =
           fst (stringify (attempt_all cs s)) \<and>
         (fst (invoke (k', w) (attempt_all cs (snd (invoke (k, '''') s))))
            = Some DuplicateFragmentError) =
           (fst (invoke (k', w) (attempt_all cs s)) = Some DuplicateFragmentError)"
proof -
  from assms(2) have nd: "\<not> is_duplicate k s"
    by (simp add: invoke_duplicate)
  from empty_call_state [OF assms(1) nd]
  have same: "fst (stringify (snd (invoke (k, '''') s))) = fst (stringify s)"
    and still: "\<not> is_duplicate k (snd (invoke (k, '''') s))"
    using nd by (auto simp: stringify_priority is_duplicate_priority)
  from still
  have next_call:
    "fst (invoke (k, w) (snd (invoke (k, '''') s))) \<noteq> Some DuplicateFragmentError"
    by (simp add: invoke_duplicate)
  have later_render:
    "fst (stringify (attempt_all cs (snd (invoke (k, '''') s)))) =
       fst (stringify (attempt_all cs s))"
    by (rule empty_call_later(1) [OF assms(1) nd])
  have later_guard:
    "(fst (invoke (k', w) (attempt_all cs (snd (invoke (k, '''') s))))
        = Some DuplicateFragmentError) =
       (fst (invoke (k', w) (attempt_all cs s)) = Some DuplicateFragmentError)"
    by (simp only: invoke_duplicate empty_call_later(2) [OF assms(1) nd])
  from same next_call fresh_empty_call [OF assms(1)] later_render later_guard
  show ?thesis by blast
qed

theorem empty_singular_value_absent_witness:
  "singular KId \<and>
   fst (invoke (KId, '''') (attempt_all [(KElement, ''a'')] new_CSSSelector))
     \<noteq> Some DuplicateFragmentError \<and>
   fst (stringify (attempt_all [(KElement, ''a'')] new_CSSSelector)) = ''a'' \<and>
   fst (stringify (snd (invoke (KId, '''')
          (attempt_all [(KElement, ''a'')] new_CSSSelector)))) = ''a'' \<and>
   fst (invoke (KId, ''x'') (snd (invoke (KId, '''')
          (attempt_all [(KElement, ''a'')] new_CSSSelector)))) = None \<and>
   fst (stringify (attempt_all [(KClass, ''c'')] (snd (invoke (KId, '''')
          (attempt_all [(KElement, ''a'')] new_CSSSelector))))) = ''a.c'' \<and>
   fst (invoke (KId, ''x'') (attempt_all [(KClass, ''c'')] (snd (invoke (KId, '''')
          (attempt_all [(KElement, ''a'')] new_CSSSelector)))))
     \<noteq> Some DuplicateFragmentError"
  using empty_singular_value_absent
    [where k = KId and s = "attempt_all [(KElement, ''a'')] new_CSSSelector"
       and w = "''x''" and cs = "[(KClass, ''c'')]" and k' = KId]
  by (simp add: method_defs truthy_def stringify_def CSSSelector_stringify_def
      render_chain_def new_CSSSelector_def)

section \<open>Rendering a valid call sequence\<close>

subsection \<open>The object a valid sequence builds\<close>

lemma vals_snoc:
  "vals k (cs @ [c]) = (if fst c = k then vals k cs @ [snd c] else vals k cs)"
  by (simp add: vals_def)

lemma valid_calls_snoc:
  assumes "valid_calls (cs @ [c])"
  shows "valid_calls cs" and "highest_rank cs \<le> rank (fst c)"
    and "singular (fst c) \<Longrightarrow> vals (fst c) cs = []"
proof -
  from assms show "valid_calls cs"
    by (auto simp: valid_calls_def vals_snoc sorted_append split: if_splits)
  from assms show "highest_rank cs \<le> rank (fst c)"
    by (auto simp: valid_calls_def sorted_append highest_rank_le)
  assume "singular (fst c)"
  with assms show "vals (fst c) cs = []"
    by (cases "fst c") (auto simp: valid_calls_def vals_snoc split: if_splits)
qed

lemma built_step:
  assumes "highest_rank cs \<le> rank (fst c)"
    and "singular (fst c) \<Longrightarrow> vals (fst c) cs = []"
  shows "invoke c (built cs) = (None, built (cs @ [c]))"
  using assms
  by (cases c; cases "fst c")
     (simp_all add: built_def method_defs truthy_def vals_snoc highest_rank_snoc max_def)

lemma chain_built: "valid_calls cs \<Longrightarrow> chain cs new_CSSSelector = Inr (built cs)"
proof (induction cs rule: rev_induct)
  case Nil
  show ?case by (simp add: built_def new_CSSSelector_def vals_def)
next
  case (snoc c cs)
  from valid_calls_snoc [OF snoc.prems]
  have v: "valid_calls cs" and h: "highest_rank cs \<le> rank (fst c)"
    and d: "singular (fst c) \<Longrightarrow> vals (fst c) cs = []"
    by auto
  from snoc.IH [OF v] built_step [OF h d] show ?case
    by (simp add: chain_snoc)
qed

subsection \<open>Joined arrays against prefixed entries\<close>

lemma array_join_wrap:
  "xs \<noteq> [] \<Longrightarrow> p @ array_join (q @ p) xs @ q = concat (map (\<lambda>v. p @ v @ q) xs)"
  by (induction "q @ p" xs rule: array_join.induct) auto

lemma array_join_prefix:
  "xs \<noteq> [] \<Longrightarrow> p @ array_join p xs = concat (map (\<lambda>v. p @ v) xs)"
  using array_join_wrap [of xs p "[]"] by simp

lemma vals_present:
  "vals k (filter present cs) =
     (if singular k then filter (\<lambda>v. v \<noteq> '''') (vals k cs) else vals k cs)"
  by (induction cs) (auto simp: vals_def split: if_splits)

lemma single_prefix:
  "length xs \<le> 1 \<Longrightarrow>
   concat (map (\<lambda>v. p @ v) (filter (\<lambda>v. v \<noteq> '''') xs)) =
     (if truthy (concat xs) then p @ concat xs else '''')"
  by (cases xs) (auto simp: truthy_def)

lemma stringify_built:
  assumes "valid_calls cs"
  shows "fst (stringify (built cs)) = spec_render (filter present cs)"
proof -
  have e: "concat (filter (\<lambda>v. v \<noteq> '''') (vals KElement cs)) =
      (if truthy (concat (vals KElement cs)) then concat (vals KElement cs) else '''')"
    using assms single_prefix [of "vals KElement cs" "[]"]
    by (simp add: valid_calls_def)
  have i: "concat (map (\<lambda>v. ''#'' @ v) (filter (\<lambda>v. v \<noteq> '''') (vals KId cs))) =
      (if truthy (concat (vals KId cs)) then ''#'' @ concat (vals KId cs) else '''')"
    using assms by (intro single_prefix) (simp add: valid_calls_def)
  have pe:
    "concat (map (\<lambda>v. ''::'' @ v) (filter (\<lambda>v. v \<noteq> '''') (vals KPseudoElement cs))) =
      (if truthy (concat (vals KPseudoElement cs))
       then ''::'' @ concat (vals KPseudoElement cs) else '''')"
    using assms by (intro single_prefix) (simp add: valid_calls_def)
  have c: "concat (map (\<lambda>v. ''.'' @ v) (vals KClass cs)) =
      (if length (vals KClass cs) > 0
       then ''.'' @ array_join ''.'' (vals KClass cs) else '''')"
    using array_join_prefix [of "vals KClass cs" "''.''"] by simp
  have a: "concat (map (\<lambda>v. ''['' @ v @ '']'') (vals KAttr cs)) =
      (if length (vals KAttr cs) > 0
       then ''['' @ array_join '']['' (vals KAttr cs) @ '']'' else '''')"
    using array_join_wrap [of "vals KAttr cs" "''[''" "'']''"] by simp
  have pc: "concat (map (\<lambda>v. '':'' @ v) (vals KPseudoClass cs)) =
      (if length (vals KPseudoClass cs) > 0
       then '':'' @ array_join '':'' (vals KPseudoClass cs) else '''')"
    using array_join_prefix [of "vals KPseudoClass cs" "'':''"] by simp
  show ?thesis
    unfolding spec_render_def vals_present
    by (simp only: singular.simps if_True if_False e i pe c a pc)
       (simp add: stringify_def CSSSelector_stringify_def built_def Let_def)
qed

subsection \<open>The claim\<close>

text \<open>
  C1, as stated, fails: the single call \<^verbatim>\<open>id('')\<close> is a valid sequence, the
  specification's rendering of it is \<^verbatim>\<open>#\<close>, and the code renders the empty string,
  since \<open>stringify\<close> skips an id that is falsy.
\<close>

theorem render_empty_id_counterexample:
  "valid_calls [(KId, '''')] \<and>
   render_chain [(KId, '''')] = Inr '''' \<and>
   spec_render [(KId, '''')] = ''#'' \<and>
   render_chain [(KId, '''')] \<noteq> Inr (spec_render [(KId, '''')])"
  by (simp add: valid_calls_def vals_def spec_render_def render_chain_def method_defs
      new_CSSSelector_def truthy_def stringify_def CSSSelector_stringify_def)

text \<open>
  C1, amended. For every sequence of fragment calls on a fresh object whose ranks never
  decrease and in which element, id and pseudo-element are each called at most once,
  no call raises, and \<open>stringify\<close> returns the concatenation the specification
  describes, taken over the calls that are present: an id or pseudo-element (or
  element) whose value is the empty string is left out together with its prefix.
\<close>

theorem render_chain_valid_calls:
  "valid_calls cs \<Longrightarrow> render_chain cs = Inr (spec_render (filter present cs))"
  by (simp add: render_chain_def chain_built stringify_built)

theorem render_chain_valid_calls_witness:
  "valid_calls
     [(KElement, ''a''), (KId, ''''), (KClass, ''c''), (KClass, ''d''), (KAttr, ''x=1''),
      (KAttr, ''y''), (KPseudoClass, ''hover''), (KPseudoElement, ''after'')] \<and>
   render_chain
     [(KElement, ''a''), (KId, ''''), (KClass, ''c''), (KClass, ''d''), (KAttr, ''x=1''),
      (KAttr, ''y''), (KPseudoClass, ''hover''), (KPseudoElement, ''after'')]
     = Inr ''a.c.d[x=1][y]:hover::after''"
proof -
  have v: "valid_calls
     [(KElement, ''a''), (KId, ''''), (KClass, ''c''), (KClass, ''d''), (KAttr, ''x=1''),
      (KAttr, ''y''), (KPseudoClass, ''hover''), (KPseudoElement, ''after'')]"
    by (simp add: valid_calls_def vals_def)
  from render_chain_valid_calls [OF v] v show ?thesis
    by (simp add: spec_render_def vals_def)
qed

end
